theory Spec2Isabelle
  imports Complex_Main "HOL-Library.Sublist" "HOL-Library.AList"
begin

section \<open>Teeth3DS: the per-mesh sampling and annotation procedure\<close>

text \<open>
  A shallow embedding of \<^verbatim>\<open>torch_geometric/datasets/teeth3ds.py\<close>. Line numbers refer to
  that file. Everything the class obtains from a library (the mesh loader, the two samplers,
  \<^verbatim>\<open>json.load\<close>, \<^verbatim>\<open>glob\<close>, reading a text file, the conversion of a number to single
  precision) is a field of the record \<open>env\<close>: the functions below are the code of the class
  itself, for an arbitrary behaviour of those libraries. An exception is a value \<open>Inl e\<close>.
\<close>

subsection \<open>Python strings\<close>

text \<open>\<^verbatim>\<open>s.split(sep)\<close> for a separator that is not empty (every call in the file passes a
  literal): the fields between the non-overlapping occurrences of \<open>sep\<close>, found left to right.
  The second argument is the field being read.\<close>

fun split_from :: "string \<Rightarrow> string \<Rightarrow> string \<Rightarrow> string list" where
  "split_from sep cur [] = [cur]"
| "split_from sep cur (c # cs) =
     (if sep \<noteq> [] \<and> prefix sep (c # cs)
      then cur # split_from sep [] (drop (length sep - 1) cs)
      else split_from sep (cur @ [c]) cs)"

definition str_split :: "string \<Rightarrow> string \<Rightarrow> string list" where
  "str_split s sep = split_from sep [] s"

text \<open>\<^verbatim>\<open>s.replace(old, new)\<close>, every occurrence, left to right.\<close>

fun str_replace :: "string \<Rightarrow> string \<Rightarrow> string \<Rightarrow> string" where
  "str_replace [] old new = []"
| "str_replace (c # cs) old new =
     (if old \<noteq> [] \<and> prefix old (c # cs)
      then new @ str_replace (drop (length old - 1) cs) old new
      else c # str_replace cs old new)"

text \<open>\<^verbatim>\<open>str(n)\<close> of an integer, as an f-string prints it.\<close>

definition digit_char :: "nat \<Rightarrow> char" where
  "digit_char d = ''0123456789'' ! (d mod 10)"

function str_nat :: "nat \<Rightarrow> string" where
  "str_nat n = (if n < 10 then [digit_char n] else str_nat (n div 10) @ [digit_char (n mod 10)])"
  by pat_completeness auto
termination
  by (relation "measure (\<lambda>n. n)") auto

declare str_nat.simps [simp del]

definition str_int :: "int \<Rightarrow> string" where
  "str_int i = (if i < 0 then CHR ''-'' # str_nat (nat (- i)) else str_nat (nat i))"

text \<open>\<^verbatim>\<open>os.path.join(a, b)\<close> (POSIX) for two components.\<close>

definition osp_join :: "string \<Rightarrow> string \<Rightarrow> string" where
  "osp_join a b =
     (if b \<noteq> [] \<and> hd b = CHR ''/'' then b
      else if a = [] \<or> last a = CHR ''/'' then a @ b
      else a @ ''/'' @ b)"

subsection \<open>Data\<close>

datatype error =
    IndexError
  | KeyError string
  | ValueError
  | RuntimeError
  | AssertionError string
  | LibraryError string

type_synonym vec3 = "real \<times> real \<times> real"

text \<open>A tensor of per-point scalars (shape \<open>(n)\<close>) or of rows of three (shape \<open>(n, 3)\<close>):
  \<open>y\<close> and \<open>instances\<close> are the first when read from a file and \<^verbatim>\<open>torch.empty(0, 3)\<close>
  otherwise.\<close>

datatype tensor = Tensor1 "real list" | Tensor2 "vec3 list"

fun tensor_len :: "tensor \<Rightarrow> nat" where
  "tensor_len (Tensor1 xs) = length xs"
| "tensor_len (Tensor2 rs) = length rs"

record mesh =
  vertices :: "vec3 list"
  vertex_normals :: "vec3 list"

text \<open>\<^verbatim>\<open>trimesh.load_mesh\<close> returns one geometry or a list of them (line 148).\<close>

datatype loaded = Mesh mesh | MeshList "mesh list"

text \<open>The segmentation file \<^verbatim>\<open>*.json\<close>: two arrays, one entry per vertex.\<close>

record seg_annotations =
  labels :: "real list"
  instances :: "real list"

text \<open>One entry of \<^verbatim>\<open>landmarks_annotations['objects']\<close>.\<close>

record keypoint =
  class_tag :: string
  coord :: "real list"

text \<open>The \<^verbatim>\<open>Data\<close> object of line 210; \<open>x_normals\<close> is its \<^verbatim>\<open>x\<close>, \<open>y_labels\<close> its \<^verbatim>\<open>y\<close>
  and \<open>inst\<close> its \<^verbatim>\<open>instances\<close>.\<close>

record data =
  pos :: "vec3 list"
  x_normals :: "vec3 list"
  y_labels :: tensor
  inst :: tensor
  jaw :: string
  mesial :: "vec3 list"
  distal :: "vec3 list"
  cusp :: "vec3 list"
  inner_point :: "vec3 list"
  outer_point :: "vec3 list"
  facial_point :: "vec3 list"

text \<open>The libraries. \<open>random_choice g a size\<close> is \<^verbatim>\<open>np.random.choice(a, size, replace=True)\<close>
  when the generator has been used \<open>g\<close> times before; \<open>load_seg\<close> and \<open>load_kpt\<close> are
  \<^verbatim>\<open>open\<close> followed by \<^verbatim>\<open>json.load\<close>, and fail on a file that does not hold the arrays
  or objects above; \<open>read_lines\<close> is \<^verbatim>\<open>file.read().splitlines()\<close>. Indices returned by a
  sampler are natural numbers.\<close>

record env =
  load_mesh :: "string \<Rightarrow> error + loaded"
  random_choice :: "nat \<Rightarrow> nat \<Rightarrow> int \<Rightarrow> error + nat list"
  bucket_fps_kdline_sampling :: "vec3 list \<Rightarrow> int \<Rightarrow> nat \<Rightarrow> nat \<Rightarrow> error + nat list"
  to_float :: "real \<Rightarrow> real"
  path_exists :: "string \<Rightarrow> bool"
  load_seg :: "string \<Rightarrow> error + seg_annotations"
  load_kpt :: "string \<Rightarrow> error + keypoint list"
  glob :: "string \<Rightarrow> string list"
  read_lines :: "string \<Rightarrow> error + string list"

text \<open>The constructor's arguments (lines 84-100). \<open>raw_dir\<close> is a property of the base class
  \<^verbatim>\<open>InMemoryDataset\<close>, taken as given.\<close>

record cfg =
  root_dir :: string
  raw_dir :: string
  split_name :: string
  is_train :: bool
  n_sample :: int
  pre_transform :: "(data \<Rightarrow> data) option"
  pre_filter :: "(data \<Rightarrow> bool) option"

definition mode :: "cfg \<Rightarrow> string" where
  "mode c = (if is_train c then ''training'' else ''testing'')"

definition processed_dir :: "cfg \<Rightarrow> string" where
  "processed_dir c = osp_join (root_dir c) (''processed_'' @ split_name c @ ''_'' @ mode c)"

text \<open>What a processing pass changes: the files written by \<^verbatim>\<open>torch.save\<close>, by path (the
  saved object is a \<^verbatim>\<open>Data\<close> or \<^verbatim>\<open>None\<close>), and the state of the random generator. Every
  path written ends in \<^verbatim>\<open>.pt\<close>, every path read in \<^verbatim>\<open>.txt\<close>, \<^verbatim>\<open>.obj\<close> or \<^verbatim>\<open>.json\<close>, so
  the files read are those of \<open>env\<close> throughout.\<close>

record world =
  cache :: "string \<rightharpoonup> data option"
  rng :: nat

subsection \<open>process_file (lines 136-225)\<close>

text \<open>Lines 147-150.\<close>

definition get_mesh :: "env \<Rightarrow> string \<Rightarrow> error + mesh" where
  "get_mesh e file_path =
     (case load_mesh e file_path of
        Inl err \<Rightarrow> Inl err
      | Inr (Mesh m) \<Rightarrow> Inr m
      | Inr (MeshList []) \<Rightarrow> Inl IndexError
      | Inr (MeshList (m # ms)) \<Rightarrow> Inr m)"

definition mismatch_message :: "int \<Rightarrow> nat \<Rightarrow> string \<Rightarrow> string" where
  "mismatch_message n got file_path =
     ''Sampled points mismatch: Expected '' @ str_int n @ '','' @
     '' but got '' @ str_nat got @ '' for '' @ file_path"

text \<open>Lines 152-157: the indices as the sampler returns them, and the generator after.\<close>

definition draw_indices :: "env \<Rightarrow> cfg \<Rightarrow> mesh \<Rightarrow> nat \<Rightarrow> error + (nat list \<times> nat)" where
  "draw_indices e c m g =
     (if int (length (vertices m)) < n_sample c
      then (case random_choice e g (length (vertices m)) (n_sample c) of
              Inl err \<Rightarrow> Inl err | Inr idx \<Rightarrow> Inr (idx, Suc g))
      else (case bucket_fps_kdline_sampling e (vertices m) (n_sample c) 5 0 of
              Inl err \<Rightarrow> Inl err | Inr idx \<Rightarrow> Inr (idx, g)))"

text \<open>Lines 152-160, with the assertion.\<close>

definition sample_indices ::
  "env \<Rightarrow> cfg \<Rightarrow> string \<Rightarrow> mesh \<Rightarrow> nat \<Rightarrow> error + (nat list \<times> nat)" where
  "sample_indices e c file_path m g =
     (case draw_indices e c m g of
        Inl err \<Rightarrow> Inl err
      | Inr (idx, g') \<Rightarrow>
          if int (length idx) = n_sample c then Inr (idx, g')
          else Inl (AssertionError (mismatch_message (n_sample c) (length idx) file_path)))"

text \<open>\<^verbatim>\<open>arr[sampled_indices]\<close>: numpy raises IndexError on an index out of range.\<close>

fun take_idx :: "'a list \<Rightarrow> nat list \<Rightarrow> error + 'a list" where
  "take_idx xs [] = Inr []"
| "take_idx xs (i # idx) =
     (if i < length xs
      then (case take_idx xs idx of Inl err \<Rightarrow> Inl err | Inr ys \<Rightarrow> Inr (xs ! i # ys))
      else Inl IndexError)"

definition float3 :: "env \<Rightarrow> vec3 \<Rightarrow> vec3" where
  "float3 e v = (case v of (a, b, c) \<Rightarrow> (to_float e a, to_float e b, to_float e c))"

text \<open>Lines 167-179.\<close>

definition load_segmentation :: "env \<Rightarrow> string \<Rightarrow> nat list \<Rightarrow> error + (tensor \<times> tensor)" where
  "load_segmentation e file_path idx =
     (let seg_annotation_path = str_replace file_path ''.obj'' ''.json'' in
      if path_exists e seg_annotation_path
      then (case load_seg e seg_annotation_path of
              Inl err \<Rightarrow> Inl err
            | Inr ann \<Rightarrow>
               (case take_idx (labels ann) idx of
                  Inl err \<Rightarrow> Inl err
                | Inr ls \<Rightarrow>
                   (case take_idx (instances ann) idx of
                      Inl err \<Rightarrow> Inl err
                    | Inr ins \<Rightarrow>
                        Inr (Tensor1 (map (to_float e) ls), Tensor1 (map (to_float e) ins)))))
      else Inr (Tensor2 [], Tensor2 []))"

text \<open>Lines 183-196: the two dictionaries, as association lists in insertion order.\<close>

definition landmark_keys :: "string list" where
  "landmark_keys =
     [''Mesial'', ''Distal'', ''Cusp'', ''InnerPoint'', ''OuterPoint'', ''FacialPoint'']"

definition keypoints_dict0 :: "(string \<times> real list) list" where
  "keypoints_dict0 = map (\<lambda>key. (key, [])) landmark_keys"

definition keypoint_tensors0 :: "(string \<times> vec3 list) list" where
  "keypoint_tensors0 = map (\<lambda>key. (key, [])) landmark_keys"

definition dict_get :: "(string \<times> 'a) list \<Rightarrow> string \<Rightarrow> error + 'a" where
  "dict_get d key = (case map_of d key of None \<Rightarrow> Inl (KeyError key) | Some v \<Rightarrow> Inr v)"

text \<open>Lines 201-202: the loop over the objects of the keypoint file.\<close>

fun extend_keypoints ::
  "(string \<times> real list) list \<Rightarrow> keypoint list \<Rightarrow> error + (string \<times> real list) list" where
  "extend_keypoints d [] = Inr d"
| "extend_keypoints d (k # ks) =
     (case dict_get d (class_tag k) of
        Inl err \<Rightarrow> Inl err
      | Inr v \<Rightarrow> extend_keypoints (AList.update (class_tag k) (v @ coord k) d) ks)"

text \<open>\<^verbatim>\<open>.reshape(-1, 3)\<close> of a flat tensor: rows of three, an error when the number of
  elements is not a multiple of three.\<close>

fun reshape3 :: "real list \<Rightarrow> error + vec3 list" where
  "reshape3 [] = Inr []"
| "reshape3 (a # b # c # rest) =
     (case reshape3 rest of Inl err \<Rightarrow> Inl err | Inr rows \<Rightarrow> Inr ((a, b, c) # rows))"
| "reshape3 _ = Inl RuntimeError"

text \<open>Lines 204-208: the dictionary comprehension.\<close>

fun tensors_of ::
  "env \<Rightarrow> (string \<times> real list) list \<Rightarrow> error + (string \<times> vec3 list) list" where
  "tensors_of e [] = Inr []"
| "tensors_of e ((key, v) # items) =
     (case reshape3 (map (to_float e) v) of
        Inl err \<Rightarrow> Inl err
      | Inr rows \<Rightarrow>
         (case tensors_of e items of
            Inl err \<Rightarrow> Inl err
          | Inr rest \<Rightarrow> Inr ((key, rows) # rest)))"

text \<open>Lines 181-208.\<close>

definition load_landmarks :: "env \<Rightarrow> string \<Rightarrow> error + (string \<times> vec3 list) list" where
  "load_landmarks e file_path =
     (let landmarks_annotation_path = str_replace file_path ''.obj'' ''__kpt.json'' in
      if path_exists e landmarks_annotation_path
      then (case load_kpt e landmarks_annotation_path of
              Inl err \<Rightarrow> Inl err
            | Inr objects \<Rightarrow>
               (case extend_keypoints keypoints_dict0 objects of
                  Inl err \<Rightarrow> Inl err
                | Inr d \<Rightarrow> tensors_of e d))
      else Inr keypoint_tensors0)"

text \<open>Line 211: \<^verbatim>\<open>file_path.split('.obj')[0].split('_')[1]\<close>.\<close>

definition jaw_of :: "string \<Rightarrow> error + string" where
  "jaw_of file_path =
     (case str_split file_path ''.obj'' of
        [] \<Rightarrow> Inl IndexError
      | stem # _ \<Rightarrow>
         (case str_split stem ''_'' of
            _ # segment # _ \<Rightarrow> Inr segment
          | _ \<Rightarrow> Inl IndexError))"

text \<open>Lines 210-217: the arguments of \<^verbatim>\<open>Data(...)\<close> in the order they are evaluated.\<close>

definition make_data ::
  "vec3 list \<Rightarrow> vec3 list \<Rightarrow> tensor \<Rightarrow> tensor \<Rightarrow> string \<Rightarrow> (string \<times> vec3 list) list
     \<Rightarrow> error + data" where
  "make_data p x y i file_path kt =
     (case jaw_of file_path of Inl err \<Rightarrow> Inl err | Inr j \<Rightarrow>
     (case dict_get kt ''Mesial'' of Inl err \<Rightarrow> Inl err | Inr me \<Rightarrow>
     (case dict_get kt ''Distal'' of Inl err \<Rightarrow> Inl err | Inr di \<Rightarrow>
     (case dict_get kt ''Cusp'' of Inl err \<Rightarrow> Inl err | Inr cu \<Rightarrow>
     (case dict_get kt ''InnerPoint'' of Inl err \<Rightarrow> Inl err | Inr ip \<Rightarrow>
     (case dict_get kt ''OuterPoint'' of Inl err \<Rightarrow> Inl err | Inr op \<Rightarrow>
     (case dict_get kt ''FacialPoint'' of Inl err \<Rightarrow> Inl err | Inr fp \<Rightarrow>
        Inr \<lparr>pos = p, x_normals = x, y_labels = y, inst = i, jaw = j,
             mesial = me, distal = di, cusp = cu,
             inner_point = ip, outer_point = op, facial_point = fp\<rparr>)))))))"

text \<open>Lines 146-217: the object \<^verbatim>\<open>data\<close> before the two hooks, and the generator after.\<close>

definition build_data :: "env \<Rightarrow> cfg \<Rightarrow> string \<Rightarrow> nat \<Rightarrow> error + (data \<times> nat)" where
  "build_data e c file_path g =
     (case get_mesh e file_path of Inl err \<Rightarrow> Inl err | Inr m \<Rightarrow>
     (case sample_indices e c file_path m g of Inl err \<Rightarrow> Inl err | Inr (idx, g') \<Rightarrow>
     (case take_idx (vertices m) idx of Inl err \<Rightarrow> Inl err | Inr ps \<Rightarrow>
     (case take_idx (vertex_normals m) idx of Inl err \<Rightarrow> Inl err | Inr ns \<Rightarrow>
     (case load_segmentation e file_path idx of Inl err \<Rightarrow> Inl err | Inr (y, i) \<Rightarrow>
     (case load_landmarks e file_path of Inl err \<Rightarrow> Inl err | Inr kt \<Rightarrow>
     (case make_data (map (float3 e) ps) (map (float3 e) ns) y i file_path kt of
        Inl err \<Rightarrow> Inl err
      | Inr d \<Rightarrow> Inr (d, g'))))))))"

text \<open>Lines 219-225: the hooks. The result is \<open>None\<close> for Python's \<^verbatim>\<open>None\<close>.\<close>

definition rejected :: "cfg \<Rightarrow> data \<Rightarrow> bool" where
  "rejected c d = (case pre_filter c of None \<Rightarrow> False | Some f \<Rightarrow> \<not> f d)"

definition apply_hooks :: "cfg \<Rightarrow> data \<Rightarrow> data option" where
  "apply_hooks c d =
     (if rejected c d then None
      else (case pre_transform c of None \<Rightarrow> Some d | Some t \<Rightarrow> Some (t d)))"

definition process_file :: "env \<Rightarrow> cfg \<Rightarrow> string \<Rightarrow> nat \<Rightarrow> error + (data option \<times> nat)" where
  "process_file e c file_path g =
     (case build_data e c file_path g of
        Inl err \<Rightarrow> Inl err
      | Inr (d, g') \<Rightarrow> Inr (apply_hooks c d, g'))"

subsection \<open>The dataset driver (lines 110-123 and 227-236)\<close>

fun read_all :: "env \<Rightarrow> string list \<Rightarrow> error + string list" where
  "read_all e [] = Inr []"
| "read_all e (file_path # rest) =
     (case read_lines e file_path of
        Inl err \<Rightarrow> Inl err
      | Inr ls \<Rightarrow> (case read_all e rest of Inl err \<Rightarrow> Inl err | Inr others \<Rightarrow> Inr (ls @ others)))"

definition split_files :: "env \<Rightarrow> cfg \<Rightarrow> string list" where
  "split_files e c =
     glob e (osp_join (osp_join (raw_dir c) (split_name c @ ''_train_test_split''))
                      (mode c @ ''*.txt''))"

definition processed_file_names :: "env \<Rightarrow> cfg \<Rightarrow> error + string list" where
  "processed_file_names e c =
     (case read_all e (split_files e c) of
        Inl err \<Rightarrow> Inl err
      | Inr combined_list \<Rightarrow> Inr (map (\<lambda>file_name. file_name @ ''.pt'') combined_list))"

text \<open>Line 230, the pattern handed to \<^verbatim>\<open>glob\<close> for a processed file name.\<close>

definition mesh_pattern :: "cfg \<Rightarrow> string \<Rightarrow> string" where
  "mesh_pattern c file =
     raw_dir c @ ''/**/*/*'' @ (case str_split file ''.'' of [] \<Rightarrow> [] | file_name # _ \<Rightarrow> file_name)
       @ ''.obj''"

text \<open>Lines 229-233: the loop body.\<close>

definition process_one :: "env \<Rightarrow> cfg \<Rightarrow> string \<Rightarrow> world \<Rightarrow> error + world" where
  "process_one e c file w =
     (case glob e (mesh_pattern c file) of
        [file_path] \<Rightarrow>
          (case process_file e c file_path (rng w) of
             Inl err \<Rightarrow> Inl err
           | Inr (d, g') \<Rightarrow>
               Inr (w\<lparr>cache := (cache w)(osp_join (processed_dir c) file \<mapsto> d), rng := g'\<rparr>))
      | _ \<Rightarrow> Inr w)"

fun process_files :: "env \<Rightarrow> cfg \<Rightarrow> string list \<Rightarrow> world \<Rightarrow> error + world" where
  "process_files e c [] w = Inr w"
| "process_files e c (file # rest) w =
     (case process_one e c file w of
        Inl err \<Rightarrow> Inl err
      | Inr w' \<Rightarrow> process_files e c rest w')"

definition process :: "env \<Rightarrow> cfg \<Rightarrow> world \<Rightarrow> error + world" where
  "process e c w =
     (case processed_file_names e c of
        Inl err \<Rightarrow> Inl err
      | Inr names \<Rightarrow> process_files e c names w)"

text \<open>Lines 235-236.\<close>

definition len :: "env \<Rightarrow> cfg \<Rightarrow> error + nat" where
  "len e c =
     (case processed_file_names e c of Inl err \<Rightarrow> Inl err | Inr names \<Rightarrow> Inr (length names))"

subsection \<open>The landmark groups as the specification words them\<close>

text \<open>The specification describes the outcome of lines 197-208 as: the coordinates of the
  entries carrying a class tag, in file order, one row of three per entry. \<open>landmark_group\<close>
  is that description, to be compared with \<open>load_landmarks\<close> above.\<close>

definition triple :: "real list \<Rightarrow> vec3" where
  "triple v = (v ! 0, v ! 1, v ! 2)"

definition landmark_group :: "env \<Rightarrow> keypoint list \<Rightarrow> string \<Rightarrow> vec3 list" where
  "landmark_group e objects key =
     map (\<lambda>k. float3 e (triple (coord k))) (filter (\<lambda>k. class_tag k = key) objects)"

subsection \<open>A small raw directory\<close>

text \<open>One mesh of three vertices with both annotation files, and a manifest of two
  identifiers of which only the first has a mesh; the name \<^verbatim>\<open>C3_upper\<close> matches two
  meshes. The farthest-point sampler answers \<open>[2, 0]\<close>, the random one
  \<open>[1, 1, 0, 2]\<close>.\<close>

definition ex_path :: string where
  "ex_path = ''T/raw/upper/A1/A1_upper.obj''"

definition ex_mesh :: mesh where
  "ex_mesh = \<lparr>vertices = [(0, 0, 0), (1, 0, 0), (0, 1, 0)],
              vertex_normals = [(0, 0, 1), (0, 1, 0), (1, 0, 0)]\<rparr>"

definition ex_objects :: "keypoint list" where
  "ex_objects =
     [\<lparr>class_tag = ''Cusp'', coord = [1, 2, 3]\<rparr>,
      \<lparr>class_tag = ''Mesial'', coord = [4, 5, 6]\<rparr>,
      \<lparr>class_tag = ''Cusp'', coord = [7, 8, 9]\<rparr>]"

definition ex_env :: env where
  "ex_env =
     \<lparr>load_mesh = (\<lambda>p. Inr (Mesh ex_mesh)),
      random_choice = (\<lambda>g a n. Inr [1, 1, 0, 2]),
      bucket_fps_kdline_sampling = (\<lambda>vs n h s. Inr [2, 0]),
      to_float = (\<lambda>v. v),
      path_exists = (\<lambda>p. p = ''T/raw/upper/A1/A1_upper.json''
                           \<or> p = ''T/raw/upper/A1/A1_upper__kpt.json''),
      load_seg = (\<lambda>p. Inr \<lparr>labels = [11, 12, 13], instances = [1, 2, 3]\<rparr>),
      load_kpt = (\<lambda>p. Inr ex_objects),
      glob = (\<lambda>pattern.
                if pattern = ''T/raw/**/*/*A1_upper.obj'' then [ex_path]
                else if pattern = ''T/raw/**/*/*C3_upper.obj''
                then [''T/raw/upper/C3/C3_upper.obj'', ''T/raw/upper/XC3/XC3_upper.obj'']
                else if pattern = ''T/raw/Teeth3DS_train_test_split/training*.txt''
                then [''T/raw/Teeth3DS_train_test_split/training_upper.txt'']
                else []),
      read_lines = (\<lambda>p. Inr [''A1_upper'', ''B2_lower''])\<rparr>"

definition ex_cfg :: cfg where
  "ex_cfg = \<lparr>root_dir = ''T'', raw_dir = ''T/raw'', split_name = ''Teeth3DS'',
             is_train = True, n_sample = 2, pre_transform = None, pre_filter = None\<rparr>"

definition ex_world :: world where
  "ex_world = \<lparr>cache = Map.empty, rng = 0\<rparr>"

text \<open>The record built from \<open>ex_path\<close> with two samples.\<close>

definition ex_data :: data where
  "ex_data =
     \<lparr>pos = [(0, 1, 0), (0, 0, 0)], x_normals = [(1, 0, 0), (0, 0, 1)],
      y_labels = Tensor1 [13, 11], inst = Tensor1 [3, 1], jaw = ''upper'',
      mesial = [(4, 5, 6)], distal = [], cusp = [(1, 2, 3), (7, 8, 9)],
      inner_point = [], outer_point = [], facial_point = []\<rparr>"

text \<open>The record built from \<open>ex_path\<close> with four samples, drawn at random.\<close>

definition ex_data4 :: data where
  "ex_data4 =
     \<lparr>pos = [(1, 0, 0), (1, 0, 0), (0, 0, 0), (0, 1, 0)],
      x_normals = [(0, 1, 0), (0, 1, 0), (0, 0, 1), (1, 0, 0)],
      y_labels = Tensor1 [12, 12, 11, 13], inst = Tensor1 [2, 2, 1, 3], jaw = ''upper'',
      mesial = [(4, 5, 6)], distal = [], cusp = [(1, 2, 3), (7, 8, 9)],
      inner_point = [], outer_point = [], facial_point = []\<rparr>"

text \<open>The same directory without annotation files, and the record built there.\<close>

definition ex_bare_env :: env where
  "ex_bare_env = ex_env\<lparr>path_exists := (\<lambda>p. False)\<rparr>"

definition ex_bare_data :: data where
  "ex_bare_data =
     \<lparr>pos = [(0, 1, 0), (0, 0, 0)], x_normals = [(1, 0, 0), (0, 0, 1)],
      y_labels = Tensor2 [], inst = Tensor2 [], jaw = ''upper'',
      mesial = [], distal = [], cusp = [],
      inner_point = [], outer_point = [], facial_point = []\<rparr>"

text \<open>The same directory with a keypoint file that holds a tag outside the six.\<close>

definition ex_apex_env :: env where
  "ex_apex_env =
     ex_env\<lparr>load_kpt := (\<lambda>p. Inr [\<lparr>class_tag = ''Cusp'', coord = [1, 2, 3]\<rparr>,
                                  \<lparr>class_tag = ''Apex'', coord = [4, 5, 6]\<rparr>])\<rparr>"

text \<open>Hooks: a \<^verbatim>\<open>pre_filter\<close> that rejects every record, and a \<^verbatim>\<open>pre_transform\<close>
  that writes a zero label for every point.\<close>

definition reject_all :: "data \<Rightarrow> bool" where
  "reject_all d = False"


text \<open>A \<^verbatim>\<open>pre_transform\<close> that discards the sampled positions.\<close>

definition drop_positions :: "data \<Rightarrow> data" where
  "drop_positions d = d\<lparr>pos := []\<rparr>"

text \<open>A \<^verbatim>\<open>pre_transform\<close> that reverses the labels, and the example directory moved under
  a directory whose name contains \<^verbatim>\<open>.obj\<close>, with the segmentation file beside the mesh.\<close>

definition reverse_labels :: "data \<Rightarrow> data" where
  "reverse_labels d =
     d\<lparr>y_labels := (case y_labels d of Tensor1 ls \<Rightarrow> Tensor1 (rev ls)
                                      | Tensor2 rows \<Rightarrow> Tensor2 rows)\<rparr>"

definition ex_dir_env :: env where
  "ex_dir_env = ex_env\<lparr>path_exists := (\<lambda>p. p = ''T_x.obj/A1_upper.json'')\<rparr>"

section \<open>Properties\<close>

subsection \<open>What a successful run went through\<close>

lemma take_idx_Inr:
  "take_idx xs idx = Inr ys \<Longrightarrow> ys = map ((!) xs) idx \<and> (\<forall>i\<in>set idx. i < length xs)"
  by (induction idx arbitrary: ys) (auto split: if_splits sum.splits)

lemma take_idx_ok:
  "\<forall>i\<in>set idx. i < length xs \<Longrightarrow> take_idx xs idx = Inr (map ((!) xs) idx)"
  by (induction idx) auto

lemma take_idx_eq:
  "take_idx xs idx
     = (if \<forall>i\<in>set idx. i < length xs then Inr (map ((!) xs) idx) else Inl IndexError)"
  by (induction idx) auto

lemma draw_indices_Inr:
  assumes "draw_indices e c m g = Inr (idx, g')"
  shows "if int (length (vertices m)) < n_sample c
         then random_choice e g (length (vertices m)) (n_sample c) = Inr idx \<and> g' = Suc g
         else bucket_fps_kdline_sampling e (vertices m) (n_sample c) 5 0 = Inr idx \<and> g' = g"
  using assms unfolding draw_indices_def by (auto split: if_splits sum.splits)

lemma sample_indices_Inr:
  assumes "sample_indices e c p m g = Inr (idx, g')"
  shows "draw_indices e c m g = Inr (idx, g') \<and> int (length idx) = n_sample c"
  using assms unfolding sample_indices_def by (auto split: if_splits sum.splits)

lemma make_data_Inr:
  assumes "make_data ps ns y i p kt = Inr d"
  shows "pos d = ps \<and> x_normals d = ns \<and> y_labels d = y \<and> inst d = i
       \<and> jaw_of p = Inr (jaw d)
       \<and> dict_get kt ''Mesial'' = Inr (mesial d) \<and> dict_get kt ''Distal'' = Inr (distal d)
       \<and> dict_get kt ''Cusp'' = Inr (cusp d) \<and> dict_get kt ''InnerPoint'' = Inr (inner_point d)
       \<and> dict_get kt ''OuterPoint'' = Inr (outer_point d)
       \<and> dict_get kt ''FacialPoint'' = Inr (facial_point d)"
  using assms unfolding make_data_def by (auto split: sum.splits)

lemma build_data_Inr:
  assumes "build_data e c p g = Inr (d, g')"
  shows "\<exists>m idx ps ns y i kt.
           get_mesh e p = Inr m \<and> sample_indices e c p m g = Inr (idx, g')
         \<and> take_idx (vertices m) idx = Inr ps \<and> take_idx (vertex_normals m) idx = Inr ns
         \<and> load_segmentation e p idx = Inr (y, i) \<and> load_landmarks e p = Inr kt
         \<and> make_data (map (float3 e) ps) (map (float3 e) ns) y i p kt = Inr d"
  using assms unfolding build_data_def by (auto split: sum.splits prod.splits)

lemma process_file_Inr:
  assumes "process_file e c p g = Inr (r, g')"
  shows "\<exists>d. build_data e c p g = Inr (d, g') \<and> r = apply_hooks c d"
  using assms unfolding process_file_def by (auto split: sum.splits prod.splits)

lemma apply_hooks_plain:
  "pre_transform c = None \<Longrightarrow> apply_hooks c d = Some d' \<Longrightarrow> d' = d"
  unfolding apply_hooks_def by (auto split: if_splits)

subsection \<open>The path of an annotation file\<close>

text \<open>When \<^verbatim>\<open>.obj\<close> occurs in a path only as its extension, line 167 and line 181 name
  the file beside the mesh: the same stem with the other extension.\<close>

lemma no_straddle:
  assumes "\<not> prefix ''.obj'' (c # cs)"
  shows "\<not> prefix ''.obj'' (c # cs @ ''.obj'')"
proof
  assume p: "prefix ''.obj'' (c # cs @ ''.obj'')"
  show False
  proof (cases cs)
    case Nil
    with p show False by simp
  next
    case (Cons a as)
    note c1 = Cons
    show False
    proof (cases as)
      case Nil
      with p c1 show False by simp
    next
      case (Cons b bs)
      note c2 = Cons
      show False
      proof (cases bs)
        case Nil
        with p c1 c2 show False by simp
      next
        case (Cons d ds)
        with p c1 c2 assms show False by simp
      qed
    qed
  qed
qed

lemma str_replace_extension:
  "\<not> sublist ''.obj'' stem \<Longrightarrow> str_replace (stem @ ''.obj'') ''.obj'' new = stem @ new"
proof (induction stem)
  case Nil
  show ?case by simp
next
  case (Cons c cs)
  from Cons.prems have np: "\<not> prefix ''.obj'' (c # cs)" and ns: "\<not> sublist ''.obj'' cs"
    by (simp_all add: sublist_Cons_right)
  from np have "\<not> (''.obj'' \<noteq> [] \<and> prefix ''.obj'' (c # (cs @ ''.obj'')))"
    using no_straddle [of c cs] by blast
  then have "str_replace (c # (cs @ ''.obj'')) ''.obj'' new
               = c # str_replace (cs @ ''.obj'') ''.obj'' new"
    by (simp only: str_replace.simps if_not_P if_False)
  with Cons.IH [OF ns] show ?case by (simp only: append_Cons)
qed

subsection \<open>The landmark dictionaries\<close>

lemma dict_get_missing: "key \<notin> fst ` set d \<Longrightarrow> dict_get d key = Inl (KeyError key)"
  using map_of_eq_None_iff [of d key] by (simp add: dict_get_def)

lemma dict_get_present:
  "key \<in> fst ` set d \<Longrightarrow> \<exists>v. dict_get d key = Inr v \<and> map_of d key = Some v"
  by (cases "map_of d key") (auto simp: dict_get_def map_of_eq_None_iff)

lemma extend_keypoints_unknown:
  "find (\<lambda>k. class_tag k \<notin> fst ` set d) objects = Some k
     \<Longrightarrow> extend_keypoints d objects = Inl (KeyError (class_tag k))"
proof (induction objects arbitrary: d)
  case Nil
  then show ?case by simp
next
  case (Cons k0 ks)
  show ?case
  proof (cases "class_tag k0 \<in> fst ` set d")
    case False
    with Cons.prems have "k = k0" by simp
    with False show ?thesis by (simp add: dict_get_missing)
  next
    case True
    then obtain v where v: "dict_get d (class_tag k0) = Inr v"
      using dict_get_present by blast
    have keys: "fst ` set (AList.update (class_tag k0) (v @ coord k0) d) = fst ` set d"
      using True by (auto simp: dom_update)
    from Cons.prems True
    have "find (\<lambda>k. class_tag k \<notin> fst ` set d) ks = Some k" by simp
    then have "extend_keypoints (AList.update (class_tag k0) (v @ coord k0) d) ks
                 = Inl (KeyError (class_tag k))"
      using Cons.IH [of "AList.update (class_tag k0) (v @ coord k0) d"] keys by simp
    with v show ?thesis by simp
  qed
qed

lemma update_present:
  "distinct (map fst d) \<Longrightarrow> map_of d t = Some v
     \<Longrightarrow> AList.update t w d = map (\<lambda>(key, u). (key, if key = t then w else u)) d"
proof (induction d)
  case Nil
  then show ?case by simp
next
  case (Cons a d)
  show ?case
  proof (cases "fst a = t")
    case True
    then have "t \<notin> fst ` set d" using Cons.prems(1) by auto
    then have "map (\<lambda>(key, u). (key, if key = t then w else u)) d = d"
      by (induction d) auto
    with True show ?thesis by (cases a) simp
  next
    case False
    with Cons show ?thesis by (cases a) auto
  qed
qed

lemma extend_keypoints_known:
  "distinct (map fst d) \<Longrightarrow> \<forall>k\<in>set objects. class_tag k \<in> fst ` set d
     \<Longrightarrow> extend_keypoints d objects
        = Inr (map (\<lambda>(key, v).
                 (key, v @ concat (map coord (filter (\<lambda>k. class_tag k = key) objects)))) d)"
proof (induction objects arbitrary: d)
  case Nil
  then show ?case by (simp add: case_prod_beta)
next
  case (Cons k0 ks)
  let ?t = "class_tag k0"
  from Cons.prems(2) obtain v where v: "dict_get d ?t = Inr v" and mv: "map_of d ?t = Some v"
    using dict_get_present [of ?t d] by auto
  let ?d' = "AList.update ?t (v @ coord k0) d"
  have d': "?d' = map (\<lambda>(key, u). (key, if key = ?t then v @ coord k0 else u)) d"
    using update_present [OF Cons.prems(1) mv] .
  have dist: "distinct (map fst ?d')" using Cons.prems(1) by (rule distinct_update)
  have keys: "fst ` set ?d' = fst ` set d" using Cons.prems(2) by (auto simp: dom_update)
  have "extend_keypoints ?d' ks
      = Inr (map (\<lambda>(key, v).
               (key, v @ concat (map coord (filter (\<lambda>k. class_tag k = key) ks)))) ?d')"
    using Cons.IH [OF dist] Cons.prems(2) keys by simp
  also have "map (\<lambda>(key, v).
               (key, v @ concat (map coord (filter (\<lambda>k. class_tag k = key) ks)))) ?d'
      = map (\<lambda>(key, v).
               (key, v @ concat (map coord (filter (\<lambda>k. class_tag k = key) (k0 # ks))))) d"
  proof -
    have "\<And>key u. (key, u) \<in> set d \<Longrightarrow> key = ?t \<Longrightarrow> u = v"
      using mv Cons.prems(1) by (metis map_of_is_SomeI option.inject)
    then show ?thesis unfolding d' by (auto simp: comp_def)
  qed
  finally show ?case using v by simp
qed

lemma reshape3_concat:
  "\<forall>v\<in>set vs. length v = 3 \<Longrightarrow> reshape3 (concat vs) = Inr (map triple vs)"
proof (induction vs)
  case Nil
  then show ?case by simp
next
  case (Cons v vs)
  then have "length v = 3" by simp
  then obtain a b c where v: "v = [a, b, c]"
    by (metis (no_types, opaque_lifting) length_0_conv length_Suc_conv numeral_3_eq_3)
  with Cons show ?case by (simp add: triple_def)
qed

lemma tensors_of_map:
  "\<forall>(key, v)\<in>set d. reshape3 (map (to_float e) v) = Inr (f key)
     \<Longrightarrow> tensors_of e d = Inr (map (\<lambda>(key, v). (key, f key)) d)"
  by (induction d) auto

lemma float3_triple:
  "length v = 3 \<Longrightarrow> triple (map (to_float e) v) = float3 e (triple v)"
  by (simp add: triple_def float3_def)

lemma load_landmarks_known:
  assumes "path_exists e (str_replace p ''.obj'' ''__kpt.json'')"
    and "load_kpt e (str_replace p ''.obj'' ''__kpt.json'') = Inr objects"
    and "\<forall>k\<in>set objects. class_tag k \<in> set landmark_keys"
    and "\<forall>k\<in>set objects. length (coord k) = 3"
  shows "load_landmarks e p = Inr (map (\<lambda>key. (key, landmark_group e objects key)) landmark_keys)"
proof -
  let ?flat = "\<lambda>key. concat (map coord (filter (\<lambda>k. class_tag k = key) objects))"
  have dist: "distinct (map fst keypoints_dict0)"
    by (simp add: keypoints_dict0_def landmark_keys_def comp_def)
  have keys: "fst ` set keypoints_dict0 = set landmark_keys"
    by (auto simp: keypoints_dict0_def image_iff)
  have ext: "extend_keypoints keypoints_dict0 objects
               = Inr (map (\<lambda>key. (key, ?flat key)) landmark_keys)"
    using extend_keypoints_known [OF dist, of objects] assms(3) keys
    by (simp add: keypoints_dict0_def comp_def)
  have rs: "reshape3 (map (to_float e) (?flat key)) = Inr (landmark_group e objects key)" for key
  proof -
    have "map (to_float e) (?flat key)
            = concat (map (\<lambda>k. map (to_float e) (coord k)) (filter (\<lambda>k. class_tag k = key) objects))"
      by (simp add: map_concat comp_def)
    moreover have "reshape3 (concat (map (\<lambda>k. map (to_float e) (coord k))
                      (filter (\<lambda>k. class_tag k = key) objects)))
            = Inr (map triple (map (\<lambda>k. map (to_float e) (coord k))
                      (filter (\<lambda>k. class_tag k = key) objects)))"
      using assms(4) by (intro reshape3_concat) auto
    moreover have "map triple (map (\<lambda>k. map (to_float e) (coord k))
                      (filter (\<lambda>k. class_tag k = key) objects)) = landmark_group e objects key"
      using assms(4) by (auto simp: landmark_group_def float3_triple)
    ultimately show ?thesis by simp
  qed
  have "tensors_of e (map (\<lambda>key. (key, ?flat key)) landmark_keys)
          = Inr (map (\<lambda>(key, v). (key, landmark_group e objects key))
                   (map (\<lambda>key. (key, ?flat key)) landmark_keys))"
    by (rule tensors_of_map) (auto simp: rs)
  then have "tensors_of e (map (\<lambda>key. (key, ?flat key)) landmark_keys)
          = Inr (map (\<lambda>key. (key, landmark_group e objects key)) landmark_keys)"
    by (simp add: comp_def)
  with ext assms(1,2) show ?thesis by (simp add: load_landmarks_def)
qed

lemma load_landmarks_unknown:
  assumes "path_exists e (str_replace p ''.obj'' ''__kpt.json'')"
    and "load_kpt e (str_replace p ''.obj'' ''__kpt.json'') = Inr objects"
    and "k0 \<in> set objects" and "class_tag k0 \<notin> set landmark_keys"
  shows "\<exists>k\<in>set objects. class_tag k \<notin> set landmark_keys
            \<and> load_landmarks e p = Inl (KeyError (class_tag k))"
proof -
  have keys: "fst ` set keypoints_dict0 = set landmark_keys"
    by (auto simp: keypoints_dict0_def image_iff)
  from assms(3,4) obtain k where
    f: "find (\<lambda>k. class_tag k \<notin> set landmark_keys) objects = Some k"
    by (cases "find (\<lambda>k. class_tag k \<notin> set landmark_keys) objects")
       (auto simp: find_None_iff)
  then have k: "k \<in> set objects" "class_tag k \<notin> set landmark_keys"
    by (auto simp: find_Some_iff)
  have "extend_keypoints keypoints_dict0 objects = Inl (KeyError (class_tag k))"
    using extend_keypoints_unknown [of keypoints_dict0 objects k] f keys by simp
  with assms(1,2) have "load_landmarks e p = Inl (KeyError (class_tag k))"
    by (simp add: load_landmarks_def)
  with k show ?thesis by blast
qed

subsection \<open>The loop body of the driver\<close>

lemma process_one_resolved:
  assumes "glob e (mesh_pattern c file) = [p]"
    and "process_file e c p (rng w) = Inr (r, g')"
  shows "process_one e c file w
           = Inr (w\<lparr>cache := (cache w)(osp_join (processed_dir c) file \<mapsto> r), rng := g'\<rparr>)"
  using assms by (simp add: process_one_def)

lemma process_file_rejected:
  assumes "build_data e c p g = Inr (d, g')" and "rejected c d"
  shows "process_file e c p g = Inr (None, g')"
  using assms by (simp add: process_file_def apply_hooks_def)

lemma process_one_skip:
  "length (glob e (mesh_pattern c file)) \<noteq> 1 \<Longrightarrow> process_one e c file w = Inr w"
  by (cases "glob e (mesh_pattern c file)"; cases "tl (glob e (mesh_pattern c file))")
     (auto simp: process_one_def)

lemma read_all_concat:
  "list_all2 (\<lambda>f ls. read_lines e f = Inr ls) fs lss \<Longrightarrow> read_all e fs = Inr (concat lss)"
  by (induction fs lss rule: list_all2_induct) auto

subsection \<open>Evaluation on the small raw directory\<close>

lemmas ex_eval =
  build_data_def process_file_def apply_hooks_def rejected_def get_mesh_def sample_indices_def
  draw_indices_def load_segmentation_def load_landmarks_def make_data_def jaw_of_def
  str_split_def dict_get_def keypoints_dict0_def keypoint_tensors0_def landmark_keys_def
  float3_def ex_env_def ex_cfg_def ex_path_def ex_mesh_def ex_objects_def ex_data_def

lemma str_nat_digit: "n < 10 \<Longrightarrow> str_nat n = [digit_char n]"
  by (subst str_nat.simps) simp

lemma ex_build: "build_data ex_env ex_cfg ex_path 0 = Inr (ex_data, 0)"
  by (simp add: ex_eval)

lemmas ex_driver =
  process_def process_one_def processed_file_names_def split_files_def mesh_pattern_def
  processed_dir_def mode_def osp_join_def len_def ex_world_def

subsection \<open>Sampling and alignment\<close>

text \<open>C1, amended. When no \<^verbatim>\<open>pre_transform\<close> is configured, every record that
  \<^verbatim>\<open>process_file\<close> returns has exactly \<^verbatim>\<open>n_sample\<close> positions and \<^verbatim>\<open>n_sample\<close> normals.
  The indices come from \<^verbatim>\<open>np.random.choice\<close> when the mesh has fewer vertices than
  \<^verbatim>\<open>n_sample\<close> and from the farthest-point sampler otherwise; in both branches each index
  is in range, so every returned point is the single-precision image of an original vertex
  and the normal at the same place is that vertex's normal.\<close>

theorem C1_sample_size:
  assumes "process_file e c p g = Inr (Some d, g')" and "pre_transform c = None"
  shows "\<exists>m idx. get_mesh e p = Inr m
       \<and> (if int (length (vertices m)) < n_sample c
          then random_choice e g (length (vertices m)) (n_sample c) = Inr idx
          else bucket_fps_kdline_sampling e (vertices m) (n_sample c) 5 0 = Inr idx)
       \<and> int (length idx) = n_sample c
       \<and> (\<forall>i\<in>set idx. i < length (vertices m) \<and> i < length (vertex_normals m))
       \<and> pos d = map (\<lambda>i. float3 e (vertices m ! i)) idx
       \<and> x_normals d = map (\<lambda>i. float3 e (vertex_normals m ! i)) idx
       \<and> int (length (pos d)) = n_sample c \<and> int (length (x_normals d)) = n_sample c
       \<and> set (pos d) \<subseteq> float3 e ` set (vertices m)"
proof -
  from assms(1) obtain d0 where b: "build_data e c p g = Inr (d0, g')"
    and r: "Some d = apply_hooks c d0"
    using process_file_Inr by blast
  from r assms(2) have d: "d = d0" using apply_hooks_plain by metis
  from b obtain m idx ps ns y i kt where
    m: "get_mesh e p = Inr m" and s: "sample_indices e c p m g = Inr (idx, g')"
    and ps: "take_idx (vertices m) idx = Inr ps" and ns: "take_idx (vertex_normals m) idx = Inr ns"
    and mk: "make_data (map (float3 e) ps) (map (float3 e) ns) y i p kt = Inr d0"
    using build_data_Inr by blast
  from s have dr: "draw_indices e c m g = Inr (idx, g')" and n: "int (length idx) = n_sample c"
    using sample_indices_Inr by blast+
  have br: "if int (length (vertices m)) < n_sample c
          then random_choice e g (length (vertices m)) (n_sample c) = Inr idx
          else bucket_fps_kdline_sampling e (vertices m) (n_sample c) 5 0 = Inr idx"
    using draw_indices_Inr [OF dr] by (simp split: if_splits)
  from ps have ps': "ps = map ((!) (vertices m)) idx" and iv: "\<forall>i\<in>set idx. i < length (vertices m)"
    using take_idx_Inr by blast+
  from ns have ns': "ns = map ((!) (vertex_normals m)) idx"
    and inn: "\<forall>i\<in>set idx. i < length (vertex_normals m)"
    using take_idx_Inr by blast+
  from mk have pd: "pos d0 = map (float3 e) ps" and xd: "x_normals d0 = map (float3 e) ns"
    using make_data_Inr by blast+
  have p1: "pos d = map (\<lambda>i. float3 e (vertices m ! i)) idx"
    using pd ps' d by (simp add: comp_def)
  have x1: "x_normals d = map (\<lambda>i. float3 e (vertex_normals m ! i)) idx"
    using xd ns' d by (simp add: comp_def)
  have sub: "set (pos d) \<subseteq> float3 e ` set (vertices m)"
    using p1 iv by auto
  have l1: "int (length (pos d)) = n_sample c" using p1 n by simp
  have l2: "int (length (x_normals d)) = n_sample c" using x1 n by simp
  show ?thesis using m br n iv inn p1 x1 l1 l2 sub by blast
qed

text \<open>C1 at the example mesh: two samples of three vertices by the farthest-point
  sampler, and four samples, with repetition, by the random one.\<close>

theorem C1_sample_size_witness:
  "process_file ex_env ex_cfg ex_path 0 = Inr (Some ex_data, 0)
   \<and> process_file ex_env (ex_cfg\<lparr>n_sample := 4\<rparr>) ex_path 7 = Inr (Some ex_data4, 8)
   \<and> pre_transform ex_cfg = None
   \<and> int (length (pos ex_data)) = 2 \<and> int (length (x_normals ex_data)) = 2
   \<and> int (length (pos ex_data4)) = 4 \<and> int (length (x_normals ex_data4)) = 4"
proof -
  have h1: "process_file ex_env ex_cfg ex_path 0 = Inr (Some ex_data, 0)"
    by (simp add: ex_eval)
  have h2: "pre_transform ex_cfg = None" by (simp add: ex_cfg_def)
  have h3: "process_file ex_env (ex_cfg\<lparr>n_sample := 4\<rparr>) ex_path 7 = Inr (Some ex_data4, 8)"
    by (simp add: ex_eval ex_data4_def)
  have h4: "pre_transform (ex_cfg\<lparr>n_sample := 4\<rparr>) = None" by (simp add: ex_cfg_def)
  have n: "n_sample ex_cfg = 2" "n_sample (ex_cfg\<lparr>n_sample := 4\<rparr>) = 4"
    by (simp_all add: ex_cfg_def)
  show ?thesis
    using C1_sample_size [OF h1 h2] C1_sample_size [OF h3 h4] h1 h2 h3 n by auto
qed

text \<open>C1 as stated fails: the record returned is what \<^verbatim>\<open>pre_transform\<close> makes of the
  one built (lines 222-223), here a record without positions while \<^verbatim>\<open>n_sample\<close> is 2.\<close>

theorem C1_counterexample:
  "process_file ex_env (ex_cfg\<lparr>pre_transform := Some drop_positions\<rparr>) ex_path 0
     = Inr (Some (ex_data\<lparr>pos := []\<rparr>), 0)
   \<and> int (length (pos (ex_data\<lparr>pos := []\<rparr>))) \<noteq> n_sample (ex_cfg\<lparr>pre_transform := Some drop_positions\<rparr>)"
  by (simp add: ex_eval drop_positions_def)

text \<open>C2, amended. Let \<^verbatim>\<open>.obj\<close> occur in the path only as its extension and let the file
  beside the mesh hold the arrays \<open>labels\<close> and \<open>instances\<close>. The annotation step
  (lines 167-176) takes both arrays at the sampled indices, the very list at which positions
  and normals are gathered, and raises IndexError exactly when an index lies outside one of
  them. When the arrays and the normals have one entry per vertex and the sampled indices
  are vertex indices, \<^verbatim>\<open>process_file\<close> gets past the gathering and the annotation step,
  and returns the hooks' result on the record built. In every record \<^verbatim>\<open>process_file\<close>
  builds, entry \<open>i\<close> of positions, normals, labels and instances belongs to the same
  original vertex, and labels and instances have length \<^verbatim>\<open>n_sample\<close>; that record is
  the one returned when no \<^verbatim>\<open>pre_transform\<close> is configured and \<^verbatim>\<open>pre_filter\<close> accepts
  it.\<close>

theorem C2_annotations_coindexed:
  assumes "path_exists e (stem @ ''.json'')"
    and "load_seg e (stem @ ''.json'') = Inr ann"
    and "\<not> sublist ''.obj'' stem"
  shows "load_segmentation e (stem @ ''.obj'') idx
           = (if \<forall>i\<in>set idx. i < length (labels ann) \<and> i < length (instances ann)
              then Inr (Tensor1 (map (\<lambda>i. to_float e (labels ann ! i)) idx),
                        Tensor1 (map (\<lambda>i. to_float e (instances ann ! i)) idx))
              else Inl IndexError)
       \<and> (get_mesh e (stem @ ''.obj'') = Inr m
          \<and> sample_indices e c (stem @ ''.obj'') m g = Inr (idx, g')
          \<and> (\<forall>i\<in>set idx. i < length (vertices m))
          \<and> length (vertex_normals m) = length (vertices m)
          \<and> length (labels ann) = length (vertices m)
          \<and> length (instances ann) = length (vertices m)
          \<and> load_landmarks e (stem @ ''.obj'') = Inr kt
          \<and> make_data (map (\<lambda>i. float3 e (vertices m ! i)) idx)
                       (map (\<lambda>i. float3 e (vertex_normals m ! i)) idx)
                       (Tensor1 (map (\<lambda>i. to_float e (labels ann ! i)) idx))
                       (Tensor1 (map (\<lambda>i. to_float e (instances ann ! i)) idx))
                       (stem @ ''.obj'') kt = Inr d
          \<longrightarrow> process_file e c (stem @ ''.obj'') g = Inr (apply_hooks c d, g'))
       \<and> (process_file e c (stem @ ''.obj'') g = Inr (r, g')
          \<longrightarrow> (\<exists>b v sampled.
                 build_data e c (stem @ ''.obj'') g = Inr (b, g')
               \<and> r = (if rejected c b then None
                      else case pre_transform c of None \<Rightarrow> Some b | Some t \<Rightarrow> Some (t b))
               \<and> get_mesh e (stem @ ''.obj'') = Inr v
               \<and> sample_indices e c (stem @ ''.obj'') v g = Inr (sampled, g')
               \<and> (\<forall>i\<in>set sampled. i < length (vertices v) \<and> i < length (vertex_normals v)
                      \<and> i < length (labels ann) \<and> i < length (instances ann))
               \<and> pos b = map (\<lambda>i. float3 e (vertices v ! i)) sampled
               \<and> x_normals b = map (\<lambda>i. float3 e (vertex_normals v ! i)) sampled
               \<and> y_labels b = Tensor1 (map (\<lambda>i. to_float e (labels ann ! i)) sampled)
               \<and> inst b = Tensor1 (map (\<lambda>i. to_float e (instances ann ! i)) sampled)
               \<and> int (length (pos b)) = n_sample c
               \<and> int (tensor_len (y_labels b)) = n_sample c
               \<and> int (tensor_len (inst b)) = n_sample c))"
proof -
  let ?p = "stem @ ''.obj''"
  have sp: "str_replace ?p ''.obj'' ''.json'' = stem @ ''.json''"
    using assms(3) by (rule str_replace_extension)
  have seg: "load_segmentation e ?p ix
           = (if \<forall>i\<in>set ix. i < length (labels ann) \<and> i < length (instances ann)
              then Inr (Tensor1 (map (\<lambda>i. to_float e (labels ann ! i)) ix),
                        Tensor1 (map (\<lambda>i. to_float e (instances ann ! i)) ix))
              else Inl IndexError)" for ix
    unfolding load_segmentation_def sp Let_def
    using assms(1,2) by (auto simp: take_idx_eq comp_def)
  have ok: "process_file e c ?p g = Inr (apply_hooks c d, g')"
    if "get_mesh e ?p = Inr m" "sample_indices e c ?p m g = Inr (idx, g')"
      "\<forall>i\<in>set idx. i < length (vertices m)"
      "length (vertex_normals m) = length (vertices m)"
      "length (labels ann) = length (vertices m)"
      "length (instances ann) = length (vertices m)"
      "load_landmarks e ?p = Inr kt"
      "make_data (map (\<lambda>i. float3 e (vertices m ! i)) idx)
                       (map (\<lambda>i. float3 e (vertex_normals m ! i)) idx)
                       (Tensor1 (map (\<lambda>i. to_float e (labels ann ! i)) idx))
                       (Tensor1 (map (\<lambda>i. to_float e (instances ann ! i)) idx))
                       ?p kt = Inr d"
  proof -
    have s: "load_segmentation e ?p idx
               = Inr (Tensor1 (map (\<lambda>i. to_float e (labels ann ! i)) idx),
                      Tensor1 (map (\<lambda>i. to_float e (instances ann ! i)) idx))"
      using that(3,5,6) by (simp add: seg)
    have t1: "take_idx (vertices m) idx = Inr (map ((!) (vertices m)) idx)"
      using that(3) by (simp add: take_idx_eq)
    have t2: "take_idx (vertex_normals m) idx = Inr (map ((!) (vertex_normals m)) idx)"
      using that(3,4) by (simp add: take_idx_eq)
    have "build_data e c ?p g = Inr (d, g')"
      unfolding build_data_def using that(1,2,7,8) s t1 t2 by (simp add: comp_def)
    then show ?thesis by (simp add: process_file_def)
  qed
  have rec: "\<exists>b v sampled.
                 build_data e c ?p g = Inr (b, g')
               \<and> r = (if rejected c b then None
                      else case pre_transform c of None \<Rightarrow> Some b | Some t \<Rightarrow> Some (t b))
               \<and> get_mesh e ?p = Inr v
               \<and> sample_indices e c ?p v g = Inr (sampled, g')
               \<and> (\<forall>i\<in>set sampled. i < length (vertices v) \<and> i < length (vertex_normals v)
                      \<and> i < length (labels ann) \<and> i < length (instances ann))
               \<and> pos b = map (\<lambda>i. float3 e (vertices v ! i)) sampled
               \<and> x_normals b = map (\<lambda>i. float3 e (vertex_normals v ! i)) sampled
               \<and> y_labels b = Tensor1 (map (\<lambda>i. to_float e (labels ann ! i)) sampled)
               \<and> inst b = Tensor1 (map (\<lambda>i. to_float e (instances ann ! i)) sampled)
               \<and> int (length (pos b)) = n_sample c
               \<and> int (tensor_len (y_labels b)) = n_sample c
               \<and> int (tensor_len (inst b)) = n_sample c"
    if pf: "process_file e c ?p g = Inr (r, g')"
  proof -
    from pf obtain b where b: "build_data e c ?p g = Inr (b, g')" and r: "r = apply_hooks c b"
      using process_file_Inr by blast
    from b obtain v sampled ps ns y i kt where
      m: "get_mesh e ?p = Inr v" and s: "sample_indices e c ?p v g = Inr (sampled, g')"
      and ps: "take_idx (vertices v) sampled = Inr ps"
      and ns: "take_idx (vertex_normals v) sampled = Inr ns"
      and sg: "load_segmentation e ?p sampled = Inr (y, i)"
      and mk: "make_data (map (float3 e) ps) (map (float3 e) ns) y i ?p kt = Inr b"
      using build_data_Inr by blast
    from sg have inr: "\<forall>i\<in>set sampled. i < length (labels ann) \<and> i < length (instances ann)"
      and y: "y = Tensor1 (map (\<lambda>i. to_float e (labels ann ! i)) sampled)"
      and i: "i = Tensor1 (map (\<lambda>i. to_float e (instances ann ! i)) sampled)"
      unfolding seg by (auto split: if_splits)
    from s have n: "int (length sampled) = n_sample c" using sample_indices_Inr by blast
    note t = take_idx_Inr [OF ps] take_idx_Inr [OF ns]
    note f = make_data_Inr [OF mk]
    have rng: "\<forall>i\<in>set sampled. i < length (vertices v) \<and> i < length (vertex_normals v)
                      \<and> i < length (labels ann) \<and> i < length (instances ann)"
      using t inr by blast
    have p1: "pos b = map (\<lambda>i. float3 e (vertices v ! i)) sampled"
      using f t by (simp add: comp_def)
    have x1: "x_normals b = map (\<lambda>i. float3 e (vertex_normals v ! i)) sampled"
      using f t by (simp add: comp_def)
    have y1: "y_labels b = Tensor1 (map (\<lambda>i. to_float e (labels ann ! i)) sampled)"
      using f y by simp
    have i1: "inst b = Tensor1 (map (\<lambda>i. to_float e (instances ann ! i)) sampled)"
      using f i by simp
    have l: "int (length (pos b)) = n_sample c" "int (tensor_len (y_labels b)) = n_sample c"
      "int (tensor_len (inst b)) = n_sample c"
      using p1 y1 i1 n by simp_all
    have r': "r = (if rejected c b then None
                      else case pre_transform c of None \<Rightarrow> Some b | Some t \<Rightarrow> Some (t b))"
      using r by (simp add: apply_hooks_def)
    show ?thesis using b r' m s rng p1 x1 y1 i1 l by blast
  qed
  show ?thesis using seg [of idx] ok rec by blast
qed

text \<open>C2 at the example mesh: the two index lists of the samplers, and an index past the
  arrays.\<close>

theorem C2_annotations_coindexed_witness:
  "path_exists ex_env (''T/raw/upper/A1/A1_upper'' @ ''.json'')
   \<and> \<not> sublist ''.obj'' ''T/raw/upper/A1/A1_upper''
   \<and> load_segmentation ex_env ex_path [2, 0] = Inr (Tensor1 [13, 11], Tensor1 [3, 1])
   \<and> load_segmentation ex_env ex_path [1, 1, 0, 2]
       = Inr (Tensor1 [12, 12, 11, 13], Tensor1 [2, 2, 1, 3])
   \<and> load_segmentation ex_env ex_path [3] = Inl IndexError
   \<and> process_file ex_env ex_cfg ex_path 0 = Inr (Some ex_data, 0)
   \<and> pos ex_data = map (\<lambda>i. float3 ex_env (vertices ex_mesh ! i)) [2, 0]
   \<and> y_labels ex_data = Tensor1 (map (\<lambda>i. to_float ex_env ([11, 12, 13] ! i)) [2, 0])
   \<and> inst ex_data = Tensor1 (map (\<lambda>i. to_float ex_env ([1, 2, 3] ! i)) [2, 0])"
proof -
  let ?ann = "\<lparr>labels = [11, 12, 13], instances = [1, 2, 3]\<rparr>"
  have h1: "path_exists ex_env (''T/raw/upper/A1/A1_upper'' @ ''.json'')"
    by (simp add: ex_env_def)
  have h2: "load_seg ex_env (''T/raw/upper/A1/A1_upper'' @ ''.json'') = Inr ?ann"
    by (simp add: ex_env_def)
  have h3: "\<not> sublist ''.obj'' ''T/raw/upper/A1/A1_upper''"
    by (simp add: sublist_Cons_right)
  have p: "ex_path = ''T/raw/upper/A1/A1_upper'' @ ''.obj''" by (simp add: ex_path_def)
  have e: "to_float ex_env = (\<lambda>v. v)" by (simp add: ex_env_def)
  have f: "pos ex_data = map (\<lambda>i. float3 ex_env (vertices ex_mesh ! i)) [2, 0]"
    by (simp add: ex_data_def ex_mesh_def float3_def e)
  have pf: "process_file ex_env ex_cfg ex_path 0 = Inr (Some ex_data, 0)"
    by (simp add: ex_eval)
  show ?thesis
    using C2_annotations_coindexed [OF h1 h2 h3, of "[2, 0]"] C2_annotations_coindexed [OF h1 h2 h3, of "[1, 1, 0, 2]"]
      C2_annotations_coindexed [OF h1 h2 h3, of "[3]"] h1 h3 f pf
    unfolding p [symmetric] by (simp add: e ex_data_def)
qed

text \<open>C2 as stated fails twice. The record returned is what \<^verbatim>\<open>pre_transform\<close> makes of
  the one built: with labels reversed, the first position is vertex 2 and the first label
  that of vertex 0. And under a directory named \<^verbatim>\<open>T_x.obj\<close> the file looked for is
  \<^verbatim>\<open>T_x.json/A1_upper.json\<close>, not the one beside the mesh, so the labels are empty.\<close>

theorem C2_counterexample:
  "process_file ex_env (ex_cfg\<lparr>pre_transform := Some reverse_labels\<rparr>) ex_path 0
     = Inr (Some (ex_data\<lparr>y_labels := Tensor1 [11, 13]\<rparr>), 0)
   \<and> pos (ex_data\<lparr>y_labels := Tensor1 [11, 13]\<rparr>) = [vertices ex_mesh ! 2, vertices ex_mesh ! 0]
   \<and> y_labels (ex_data\<lparr>y_labels := Tensor1 [11, 13]\<rparr>) \<noteq> Tensor1 [[11, 12, 13] ! 2, [11, 12, 13] ! 0]
   \<and> path_exists ex_dir_env ''T_x.obj/A1_upper.json''
   \<and> process_file ex_dir_env ex_cfg ''T_x.obj/A1_upper.obj'' 0
       = Inr (Some (ex_bare_data\<lparr>jaw := ''x''\<rparr>), 0)
   \<and> int (tensor_len (y_labels (ex_bare_data\<lparr>jaw := ''x''\<rparr>))) \<noteq> n_sample ex_cfg"
  by (simp add: ex_eval ex_dir_env_def ex_bare_data_def reverse_labels_def)

subsection \<open>The hooks and the cache\<close>

text \<open>C3. The specification has a record rejected by \<^verbatim>\<open>pre_filter\<close> leave no entry in
  the cache. \<^verbatim>\<open>process_file\<close> does return \<^verbatim>\<open>None\<close> for it, but line 233 saves whatever
  \<^verbatim>\<open>process_file\<close> returned: on the example directory with a filter that rejects
  everything, the pass ends with the file \<^verbatim>\<open>A1_upper.pt\<close> holding \<^verbatim>\<open>None\<close>.\<close>

theorem C3_rejected_record_is_saved:
  "process_file ex_env (ex_cfg\<lparr>pre_filter := Some reject_all\<rparr>) ex_path 0 = Inr (None, 0)
   \<and> process ex_env (ex_cfg\<lparr>pre_filter := Some reject_all\<rparr>) ex_world
       = Inr \<lparr>cache = [''T/processed_Teeth3DS_training/A1_upper.pt'' \<mapsto> None], rng = 0\<rparr>"
proof -
  let ?c = "ex_cfg\<lparr>pre_filter := Some reject_all\<rparr>"
  have b: "build_data ex_env ?c ex_path 0 = Inr (ex_data, 0)"
    by (simp add: ex_eval)
  have r: "rejected ?c ex_data" by (simp add: rejected_def reject_all_def)
  have pf: "process_file ex_env ?c ex_path 0 = Inr (None, 0)"
    using process_file_rejected [OF b r] .
  have names: "processed_file_names ex_env ?c = Inr [''A1_upper.pt'', ''B2_lower.pt'']"
    by (simp add: ex_driver ex_env_def ex_cfg_def)
  have g1: "glob ex_env (mesh_pattern ?c ''A1_upper.pt'') = [ex_path]"
    by (simp add: mesh_pattern_def str_split_def ex_env_def ex_cfg_def)
  have g2: "glob ex_env (mesh_pattern ?c ''B2_lower.pt'') = []"
    by (simp add: mesh_pattern_def str_split_def ex_env_def ex_cfg_def)
  have pf': "process_file ex_env ?c ex_path (rng ex_world) = Inr (None, 0)"
    using pf by (simp add: ex_world_def)
  have s1: "process_one ex_env ?c ''A1_upper.pt'' ex_world
      = Inr \<lparr>cache = [''T/processed_Teeth3DS_training/A1_upper.pt'' \<mapsto> None], rng = 0\<rparr>"
    using process_one_resolved [OF g1 pf']
    by (simp add: processed_dir_def mode_def osp_join_def ex_cfg_def ex_world_def)
  have s2: "process_one ex_env ?c ''B2_lower.pt'' w = Inr w" for w
    using g2 by (simp add: process_one_def)
  show ?thesis using pf names s1 s2 by (simp add: process_def)
qed

subsection \<open>The jaw token\<close>

text \<open>C4. The specification takes \<^verbatim>\<open>jaw\<close> to be the second underscore-delimited segment
  of the base name, whatever the directory. Line 211 splits the whole path: the bare name
  \<^verbatim>\<open>patient007_upper_scan.obj\<close> gives \<^verbatim>\<open>upper\<close>, the same file under \<^verbatim>\<open>/my_data/\<close>
  gives \<^verbatim>\<open>data/patient007\<close>, and that is the \<^verbatim>\<open>jaw\<close> of the record returned.\<close>

theorem C4_jaw_depends_on_directory:
  "jaw_of ''patient007_upper_scan.obj'' = Inr ''upper''
   \<and> jaw_of ''/my_data/patient007_upper_scan.obj'' = Inr ''data/patient007''
   \<and> process_file ex_bare_env ex_cfg ''/my_data/patient007_upper_scan.obj'' 0
       = Inr (Some (ex_bare_data\<lparr>jaw := ''data/patient007''\<rparr>), 0)"
  by (simp add: ex_eval ex_bare_env_def ex_bare_data_def)

subsection \<open>Failures and missing files\<close>

text \<open>C5. When the farthest-point sampler is used and returns a number of indices other
  than \<^verbatim>\<open>n_sample\<close>, \<^verbatim>\<open>process_file\<close> raises the AssertionError of lines 158-160, whose
  message ends with the file path; no record is returned.\<close>

theorem C5_sampling_size_mismatch:
  assumes "get_mesh e p = Inr m"
    and "\<not> int (length (vertices m)) < n_sample c"
    and "bucket_fps_kdline_sampling e (vertices m) (n_sample c) 5 0 = Inr idx"
    and "int (length idx) \<noteq> n_sample c"
  shows "process_file e c p g
           = Inl (AssertionError (mismatch_message (n_sample c) (length idx) p))
       \<and> suffix p (mismatch_message (n_sample c) (length idx) p)"
proof -
  have "sample_indices e c p m g
          = Inl (AssertionError (mismatch_message (n_sample c) (length idx) p))"
    using assms(2-4) by (simp add: sample_indices_def draw_indices_def)
  then have "process_file e c p g
          = Inl (AssertionError (mismatch_message (n_sample c) (length idx) p))"
    using assms(1) by (simp add: process_file_def build_data_def)
  moreover have "suffix p (mismatch_message (n_sample c) (length idx) p)"
    unfolding mismatch_message_def suffix_def by (metis append.assoc)
  ultimately show ?thesis by simp
qed

text \<open>C5 at the example mesh: three samples asked, two indices returned.\<close>

theorem C5_sampling_size_mismatch_witness:
  "process_file ex_env (ex_cfg\<lparr>n_sample := 3\<rparr>) ex_path 0
     = Inl (AssertionError
         ''Sampled points mismatch: Expected 3, but got 2 for T/raw/upper/A1/A1_upper.obj'')"
proof -
  have h1: "get_mesh ex_env ex_path = Inr ex_mesh" by (simp add: get_mesh_def ex_env_def)
  have h2: "\<not> int (length (vertices ex_mesh)) < n_sample (ex_cfg\<lparr>n_sample := 3\<rparr>)"
    by (simp add: ex_mesh_def)
  have h3: "bucket_fps_kdline_sampling ex_env (vertices ex_mesh) (n_sample (ex_cfg\<lparr>n_sample := 3\<rparr>)) 5 0
              = Inr [2, 0]" by (simp add: ex_env_def)
  have h4: "int (length [2::nat, 0]) \<noteq> n_sample (ex_cfg\<lparr>n_sample := 3\<rparr>)" by simp
  have m: "mismatch_message 3 2 ex_path
      = ''Sampled points mismatch: Expected 3, but got 2 for T/raw/upper/A1/A1_upper.obj''"
    by (simp add: mismatch_message_def str_int_def str_nat_digit digit_char_def ex_path_def)
  have l: "length [2::nat, 0] = 2" by simp
  show ?thesis using C5_sampling_size_mismatch [OF h1 h2 h3 h4, of 0] m
    unfolding l by simp
qed




subsection \<open>Landmarks\<close>

text \<open>C7. For a keypoint file whose entries all carry one of the six tags, each with a
  coordinate of three numbers, the landmark step succeeds and the tensor of a tag holds
  exactly the coordinates of the entries with that tag, in file order, one row per entry;
  these are the six landmark fields of the record \<^verbatim>\<open>process_file\<close> builds.\<close>

theorem C7_landmark_grouping:
  assumes "path_exists e (str_replace p ''.obj'' ''__kpt.json'')"
    and "load_kpt e (str_replace p ''.obj'' ''__kpt.json'') = Inr objects"
    and "\<forall>k\<in>set objects. class_tag k \<in> set landmark_keys"
    and "\<forall>k\<in>set objects. length (coord k) = 3"
  shows "load_landmarks e p
           = Inr (map (\<lambda>key. (key, landmark_group e objects key)) landmark_keys)
       \<and> (\<forall>key. length (landmark_group e objects key)
                  = length (filter (\<lambda>k. class_tag k = key) objects))
       \<and> (process_file e c p g = Inr (r, g')
          \<longrightarrow> (\<exists>d. build_data e c p g = Inr (d, g') \<and> r = apply_hooks c d
                 \<and> mesial d = landmark_group e objects ''Mesial''
                 \<and> distal d = landmark_group e objects ''Distal''
                 \<and> cusp d = landmark_group e objects ''Cusp''
                 \<and> inner_point d = landmark_group e objects ''InnerPoint''
                 \<and> outer_point d = landmark_group e objects ''OuterPoint''
                 \<and> facial_point d = landmark_group e objects ''FacialPoint''))"
proof -
  let ?kt = "map (\<lambda>key. (key, landmark_group e objects key)) landmark_keys"
  have lm: "load_landmarks e p = Inr ?kt"
    using load_landmarks_known [OF assms] .
  have len: "\<forall>key. length (landmark_group e objects key)
                  = length (filter (\<lambda>k. class_tag k = key) objects)"
    by (simp add: landmark_group_def)
  have rec: "\<exists>d. build_data e c p g = Inr (d, g') \<and> r = apply_hooks c d
                 \<and> mesial d = landmark_group e objects ''Mesial''
                 \<and> distal d = landmark_group e objects ''Distal''
                 \<and> cusp d = landmark_group e objects ''Cusp''
                 \<and> inner_point d = landmark_group e objects ''InnerPoint''
                 \<and> outer_point d = landmark_group e objects ''OuterPoint''
                 \<and> facial_point d = landmark_group e objects ''FacialPoint''"
    if pf: "process_file e c p g = Inr (r, g')"
  proof -
    from pf obtain d where b: "build_data e c p g = Inr (d, g')" and r: "r = apply_hooks c d"
      using process_file_Inr by blast
    from b obtain ps ns y i kt where l: "load_landmarks e p = Inr kt"
      and mk: "make_data (map (float3 e) ps) (map (float3 e) ns) y i p kt = Inr d"
      using build_data_Inr by blast
    from l lm have kt: "kt = ?kt" by simp
    have "mesial d = landmark_group e objects ''Mesial''
        \<and> distal d = landmark_group e objects ''Distal''
        \<and> cusp d = landmark_group e objects ''Cusp''
        \<and> inner_point d = landmark_group e objects ''InnerPoint''
        \<and> outer_point d = landmark_group e objects ''OuterPoint''
        \<and> facial_point d = landmark_group e objects ''FacialPoint''"
      using make_data_Inr [OF mk] unfolding kt
      by (simp add: dict_get_def landmark_keys_def)
    with b r show ?thesis by blast
  qed
  show ?thesis using lm len rec by blast
qed

text \<open>C7 on the example file: two \<^verbatim>\<open>Cusp\<close> entries and one \<^verbatim>\<open>Mesial\<close>.\<close>

theorem C7_landmark_grouping_witness:
  "load_landmarks ex_env ex_path
     = Inr [(''Mesial'', [(4, 5, 6)]), (''Distal'', []), (''Cusp'', [(1, 2, 3), (7, 8, 9)]),
            (''InnerPoint'', []), (''OuterPoint'', []), (''FacialPoint'', [])]
   \<and> length (landmark_group ex_env ex_objects ''Cusp'') = 2
   \<and> length (landmark_group ex_env ex_objects ''Mesial'') = 1
   \<and> length (landmark_group ex_env ex_objects ''Distal'') = 0"
proof -
  have h1: "path_exists ex_env (str_replace ex_path ''.obj'' ''__kpt.json'')"
    by (simp add: ex_env_def ex_path_def)
  have h2: "load_kpt ex_env (str_replace ex_path ''.obj'' ''__kpt.json'') = Inr ex_objects"
    by (simp add: ex_env_def)
  have h3: "\<forall>k\<in>set ex_objects. class_tag k \<in> set landmark_keys"
    by (simp add: ex_objects_def landmark_keys_def)
  have h4: "\<forall>k\<in>set ex_objects. length (coord k) = 3"
    by (simp add: ex_objects_def)
  have g: "landmark_group ex_env ex_objects ''Mesial'' = [(4, 5, 6)]"
    "landmark_group ex_env ex_objects ''Cusp'' = [(1, 2, 3), (7, 8, 9)]"
    "landmark_group ex_env ex_objects ''Distal'' = []"
    "landmark_group ex_env ex_objects ''InnerPoint'' = []"
    "landmark_group ex_env ex_objects ''OuterPoint'' = []"
    "landmark_group ex_env ex_objects ''FacialPoint'' = []"
    by (simp_all add: landmark_group_def ex_objects_def triple_def float3_def ex_env_def)
  show ?thesis
    using C7_landmark_grouping [OF h1 h2 h3 h4, of ex_cfg 0 None 0] g
    by (simp add: landmark_keys_def)
qed

text \<open>C10. When the keypoint file holds an entry whose tag is none of the six,
  \<^verbatim>\<open>process_file\<close> returns no record: the landmark step raises KeyError on such a tag,
  and that is the error of \<^verbatim>\<open>process_file\<close> whenever the steps before it (loading,
  sampling, gathering, segmentation) succeed.\<close>

theorem C10_unknown_class_tag:
  assumes "path_exists e (str_replace p ''.obj'' ''__kpt.json'')"
    and "load_kpt e (str_replace p ''.obj'' ''__kpt.json'') = Inr objects"
    and "k0 \<in> set objects" and "class_tag k0 \<notin> set landmark_keys"
  shows "\<exists>k\<in>set objects. class_tag k \<notin> set landmark_keys
       \<and> load_landmarks e p = Inl (KeyError (class_tag k))
       \<and> (\<exists>err. process_file e c p g = Inl err)
       \<and> (\<forall>m idx g1 ps ns yi.
             get_mesh e p = Inr m \<and> sample_indices e c p m g = Inr (idx, g1)
           \<and> take_idx (vertices m) idx = Inr ps \<and> take_idx (vertex_normals m) idx = Inr ns
           \<and> load_segmentation e p idx = Inr yi
           \<longrightarrow> process_file e c p g = Inl (KeyError (class_tag k)))"
proof -
  from load_landmarks_unknown [OF assms] obtain k where
    k: "k \<in> set objects" "class_tag k \<notin> set landmark_keys"
    and lm: "load_landmarks e p = Inl (KeyError (class_tag k))"
    by blast
  have fails: "\<exists>err. process_file e c p g = Inl err"
  proof (cases "process_file e c p g")
    case (Inl err)
    then show ?thesis by blast
  next
    case (Inr res)
    then obtain r g' where "process_file e c p g = Inr (r, g')" by (cases res) simp
    then obtain d where "build_data e c p g = Inr (d, g')" using process_file_Inr by blast
    then obtain kt where "load_landmarks e p = Inr kt" using build_data_Inr by blast
    with lm show ?thesis by simp
  qed
  have key: "process_file e c p g = Inl (KeyError (class_tag k))"
    if "get_mesh e p = Inr m" "sample_indices e c p m g = Inr (idx, g1)"
      "take_idx (vertices m) idx = Inr ps" "take_idx (vertex_normals m) idx = Inr ns"
      "load_segmentation e p idx = Inr yi" for m idx g1 ps ns yi
    using that lm by (cases yi) (simp add: process_file_def build_data_def)
  show ?thesis using k lm fails key by blast
qed

text \<open>C10 on the example directory, with a tag \<^verbatim>\<open>Apex\<close>.\<close>

theorem C10_unknown_class_tag_witness:
  "process_file ex_apex_env ex_cfg ex_path 0 = Inl (KeyError ''Apex'')"
proof -
  have h1: "path_exists ex_apex_env (str_replace ex_path ''.obj'' ''__kpt.json'')"
    by (simp add: ex_apex_env_def ex_env_def ex_path_def)
  have h2: "load_kpt ex_apex_env (str_replace ex_path ''.obj'' ''__kpt.json'')
      = Inr [\<lparr>class_tag = ''Cusp'', coord = [1, 2, 3]\<rparr>, \<lparr>class_tag = ''Apex'', coord = [4, 5, 6]\<rparr>]"
    by (simp add: ex_apex_env_def)
  have h3: "\<lparr>class_tag = ''Apex'', coord = [4, 5, 6]\<rparr>
      \<in> set [\<lparr>class_tag = ''Cusp'', coord = [1, 2, 3]\<rparr>, \<lparr>class_tag = ''Apex'', coord = [4, 5, 6]\<rparr>]"
    by simp
  have h4: "class_tag \<lparr>class_tag = ''Apex'', coord = [4, 5, 6]\<rparr> \<notin> set landmark_keys"
    by (simp add: landmark_keys_def)
  have s: "get_mesh ex_apex_env ex_path = Inr ex_mesh
      \<and> sample_indices ex_apex_env ex_cfg ex_path ex_mesh 0 = Inr ([2, 0], 0)
      \<and> take_idx (vertices ex_mesh) [2, 0] = Inr [(0, 1, 0), (0, 0, 0)]
      \<and> take_idx (vertex_normals ex_mesh) [2, 0] = Inr [(1, 0, 0), (0, 0, 1)]
      \<and> load_segmentation ex_apex_env ex_path [2, 0] = Inr (Tensor1 [13, 11], Tensor1 [3, 1])"
    by (simp add: ex_eval ex_apex_env_def)
  show ?thesis
    using C10_unknown_class_tag [OF h1 h2 h3 h4, of ex_cfg 0] s
    by (auto simp: landmark_keys_def)
qed

subsection \<open>The driver\<close>

text \<open>C8. When the lookup of line 230 yields no match or several, the loop body does
  nothing and raises nothing: the cache and the generator are as before, whatever
  \<^verbatim>\<open>process_file\<close> would do, and the whole pass is the pass without that name.\<close>

theorem C8_unresolved_identifier_skipped:
  assumes "length (glob e (mesh_pattern c file)) \<noteq> 1"
  shows "process_one e c file w = Inr w
       \<and> process_files e c (before @ file # after) w = process_files e c (before @ after) w"
proof -
  have one: "process_one e c file w' = Inr w'" for w'
    using assms by (rule process_one_skip)
  have "process_files e c (before @ file # after) w = process_files e c (before @ after) w"
  proof (induction before arbitrary: w)
    case Nil
    show ?case by (simp add: one)
  next
    case (Cons f fs)
    show ?case
    proof (cases "process_one e c f w")
      case (Inl err)
      then show ?thesis by simp
    next
      case (Inr w')
      then show ?thesis using Cons.IH [of w'] by simp
    qed
  qed
  with one show ?thesis by simp
qed

text \<open>C8 on the example directory: \<^verbatim>\<open>B2_lower\<close> has no mesh, \<^verbatim>\<open>C3_upper\<close> has two.\<close>

theorem C8_unresolved_identifier_skipped_witness:
  "length (glob ex_env (mesh_pattern ex_cfg ''B2_lower.pt'')) = 0
   \<and> length (glob ex_env (mesh_pattern ex_cfg ''C3_upper.pt'')) = 2
   \<and> process_one ex_env ex_cfg ''B2_lower.pt'' ex_world = Inr ex_world
   \<and> process_one ex_env ex_cfg ''C3_upper.pt'' ex_world = Inr ex_world
   \<and> process_files ex_env ex_cfg [''A1_upper.pt'', ''B2_lower.pt''] ex_world
       = process_files ex_env ex_cfg [''A1_upper.pt''] ex_world"
proof -
  have h0: "length (glob ex_env (mesh_pattern ex_cfg ''B2_lower.pt'')) = 0"
    by (simp add: mesh_pattern_def str_split_def ex_env_def ex_cfg_def)
  have h2: "length (glob ex_env (mesh_pattern ex_cfg ''C3_upper.pt'')) = 2"
    by (simp add: mesh_pattern_def str_split_def ex_env_def ex_cfg_def)
  have n0: "length (glob ex_env (mesh_pattern ex_cfg ''B2_lower.pt'')) \<noteq> 1"
    using h0 by simp
  have n2: "length (glob ex_env (mesh_pattern ex_cfg ''C3_upper.pt'')) \<noteq> 1"
    using h2 by simp
  show ?thesis
    using C8_unresolved_identifier_skipped [OF n0, of ex_world "[''A1_upper.pt'']" "[]"]
      C8_unresolved_identifier_skipped [OF n2, of ex_world "[]" "[]"] h0 h2
    by simp
qed

text \<open>C9. When every split file can be read, the processed file names are the lines of the
  split files, in the order of the files and of the lines, repetitions kept, each with
  \<^verbatim>\<open>.pt\<close> appended; \<^verbatim>\<open>len\<close> is their number, and the pass iterates over the same list.
  \<^verbatim>\<open>len\<close> reads the manifest only, never the cache.\<close>

theorem C9_len_counts_manifest:
  assumes "list_all2 (\<lambda>f ls. read_lines e f = Inr ls) (split_files e c) lss"
  shows "processed_file_names e c = Inr (map (\<lambda>name. name @ ''.pt'') (concat lss))
       \<and> len e c = Inr (length (concat lss))
       \<and> len e c = Inr (sum_list (map length lss))
       \<and> process e c w = process_files e c (map (\<lambda>name. name @ ''.pt'') (concat lss)) w"
proof -
  have names: "processed_file_names e c = Inr (map (\<lambda>name. name @ ''.pt'') (concat lss))"
    using read_all_concat [OF assms] by (simp add: processed_file_names_def)
  then show ?thesis by (simp add: len_def process_def length_concat)
qed

text \<open>C9 on the example manifest: two identifiers, one record saved.\<close>

theorem C9_len_counts_manifest_witness:
  "len ex_env ex_cfg = Inr 2
   \<and> process ex_env ex_cfg ex_world
       = Inr \<lparr>cache = [''T/processed_Teeth3DS_training/A1_upper.pt'' \<mapsto> Some ex_data], rng = 0\<rparr>"
proof -
  have sf: "split_files ex_env ex_cfg = [''T/raw/Teeth3DS_train_test_split/training_upper.txt'']"
    by (simp add: split_files_def mode_def osp_join_def ex_env_def ex_cfg_def)
  have h: "list_all2 (\<lambda>f ls. read_lines ex_env f = Inr ls) (split_files ex_env ex_cfg)
             [[''A1_upper'', ''B2_lower'']]"
    unfolding sf by (simp add: ex_env_def)
  have g1: "glob ex_env (mesh_pattern ex_cfg ''A1_upper.pt'') = [ex_path]"
    by (simp add: mesh_pattern_def str_split_def ex_env_def ex_cfg_def)
  have g2: "glob ex_env (mesh_pattern ex_cfg ''B2_lower.pt'') = []"
    by (simp add: mesh_pattern_def str_split_def ex_env_def ex_cfg_def)
  have pf: "process_file ex_env ex_cfg ex_path (rng ex_world) = Inr (Some ex_data, 0)"
    by (simp add: ex_eval ex_world_def)
  have s1: "process_one ex_env ex_cfg ''A1_upper.pt'' ex_world
      = Inr \<lparr>cache = [''T/processed_Teeth3DS_training/A1_upper.pt'' \<mapsto> Some ex_data], rng = 0\<rparr>"
    using process_one_resolved [OF g1 pf]
    by (simp add: processed_dir_def mode_def osp_join_def ex_cfg_def ex_world_def)
  have s2: "process_one ex_env ex_cfg ''B2_lower.pt'' w = Inr w" for w
    using g2 by (simp add: process_one_def)
  show ?thesis
    using C9_len_counts_manifest [OF h, of ex_world] s1 s2 by simp
qed

end
